theory Spec2Isabelle
  imports Complex_Main "HOL-Library.AList"
begin

section \<open>Data model\<close>

text \<open>
  The repository holds two variants of one timing module: \<^verbatim>\<open>src/pytorchures/timing.py\<close> and
  the older \<^verbatim>\<open>src/object_detection/timing.py\<close>. Both define a class \<^verbatim>\<open>TimedLayer\<close>, a
  function \<^verbatim>\<open>wrap_model_layers\<close> and a decorator \<^verbatim>\<open>profile_function\<close>. Definitions of the
  first variant keep the source's names; those of the second carry the prefix \<open>od_\<close>.

  The framework (\<^verbatim>\<open>torch\<close>), the clock (\<^verbatim>\<open>time.time\<close>) and \<^verbatim>\<open>functools.wraps\<close> are not part of
  the repository. What the code needs from them is a parameter of the model:
  the clock readings, whether CUDA is available and what the device barrier does are
  fields of an environment; the code of a framework layer is a value of type \<open>prog\<close>.
\<close>

datatype error = AssertionError | AttributeError string | RuntimeError string

text \<open>
  The body of a framework layer's \<^verbatim>\<open>forward\<close>, as far as the timing code can observe it:
  it returns a value, raises, or calls one of its sub-modules by attribute name
  (\<^verbatim>\<open>self.name(arg)\<close>) and goes on with what that call returned or raised.
\<close>

datatype 'v prog =
    Return 'v
  | Raise error
  | Call string 'v "error + 'v \<Rightarrow> 'v prog"

text \<open>
  A \<^verbatim>\<open>torch.nn.Module\<close> object is either a framework layer or a \<^verbatim>\<open>TimedLayer\<close> of
  \<^verbatim>\<open>src/pytorchures/timing.py\<close>. A layer has its class name, its registered sub-modules
  (the ordered dictionary \<^verbatim>\<open>_modules\<close>, enumerated by \<^verbatim>\<open>named_children()\<close>), its other
  attributes, and the body of its \<^verbatim>\<open>forward\<close>, which may read whether gradient recording is
  enabled. A \<^verbatim>\<open>TimedLayer\<close> has the four fields that \<^verbatim>\<open>__init__\<close> sets: \<^verbatim>\<open>_module\<close>,
  \<^verbatim>\<open>_module_name\<close>, \<^verbatim>\<open>_total_time_ms\<close> and \<^verbatim>\<open>_indent\<close>. Objects are values: the model is a
  strict tree, in which no object is the child of two parents, and a function that mutates
  an object in place returns the object after the mutation. Durations are real numbers; the
  rounding of floating-point arithmetic is left out.
\<close>

datatype 'v module =
    Module (class_name: string) (modules: "(string \<times> 'v module) list")
           (attrs: "(string \<times> 'v) list") (body: "bool \<Rightarrow> 'v \<Rightarrow> 'v prog")
  | TimedLayer (module: "'v module") (layer_module_name: string) (total_time_ms: real)
               (indent: string)

datatype 'v pyobj = ModuleObj "'v module" | OtherObj 'v

text \<open>A line written by \<^verbatim>\<open>print\<close> or by \<^verbatim>\<open>logger.info\<close>: the fields of the format string.\<close>

datatype line =
    TextLine string
  | LayerLine string string real
  | FunctionLine string real

text \<open>
  The environment: \<open>clock env k\<close> is what the \<open>k\<close>-th call of \<^verbatim>\<open>time.time()\<close> returns,
  \<open>cuda_is_available\<close> is \<^verbatim>\<open>torch.cuda.is_available()\<close>, and \<open>cuda_synchronize\<close> is what
  \<^verbatim>\<open>torch.cuda.synchronize()\<close> does: \<open>None\<close> when it returns, \<open>Some e\<close> when it raises \<open>e\<close>.
  The world is what a call can change: the number of clock readings taken, the gradient
  mode, the lines logged and the lines printed.
\<close>

record env =
  clock :: "nat \<Rightarrow> real"
  cuda_is_available :: bool
  cuda_synchronize :: "error option"

record world =
  ticks :: nat
  grad_enabled :: bool
  log :: "line list"
  stdout :: "line list"

text \<open>\<^verbatim>\<open>time.time()\<close>: the next reading of the clock.\<close>

definition time_time :: "env \<Rightarrow> world \<Rightarrow> real \<times> world" where
  "time_time env w = (clock env (ticks w), w\<lparr>ticks := Suc (ticks w)\<rparr>)"

definition logger_info :: "line \<Rightarrow> world \<Rightarrow> world" where
  "logger_info l w = w\<lparr>log := log w @ [l]\<rparr>"

definition print :: "line \<Rightarrow> world \<Rightarrow> world" where
  "print l w = w\<lparr>stdout := stdout w @ [l]\<rparr>"

definition tab :: string where
  "tab = [CHR 0x09]"

section \<open>\<^verbatim>\<open>src/pytorchures/timing.py\<close>\<close>

fun isinstance_TimedLayer :: "'v module \<Rightarrow> bool" where
  "isinstance_TimedLayer (TimedLayer m n t i) = True"
| "isinstance_TimedLayer (Module c cs as f) = False"

text \<open>\<^verbatim>\<open>module.__class__.__name__\<close>\<close>

fun cls_name :: "'v module \<Rightarrow> string" where
  "cls_name (Module c cs as f) = c"
| "cls_name (TimedLayer m n t i) = ''TimedLayer''"

text \<open>
  \<^verbatim>\<open>named_children()\<close>: the registered sub-modules, in the order of registration (an entry
  of \<^verbatim>\<open>_modules\<close> that is \<^verbatim>\<open>None\<close> is no child and is not part of the model). Assigning
  \<^verbatim>\<open>self._module = module\<close> in \<^verbatim>\<open>__init__\<close> registers the wrapped module under the name
  \<^verbatim>\<open>_module\<close>.
\<close>

fun named_children :: "'v module \<Rightarrow> (string \<times> 'v module) list" where
  "named_children (Module c cs as f) = cs"
| "named_children (TimedLayer m n t i) = [(''_module'', m)]"

text \<open>\<^verbatim>\<open>TimedLayer.__init__\<close> (lines 19-26): two assertions, then the four fields.\<close>

definition TimedLayer_init :: "'v pyobj \<Rightarrow> string \<Rightarrow> error + 'v module" where
  "TimedLayer_init obj ind =
     (case obj of
        OtherObj x \<Rightarrow> Inl AssertionError
      | ModuleObj m \<Rightarrow>
          if isinstance_TimedLayer m then Inl AssertionError
          else Inr (TimedLayer m (cls_name m) 0 ind))"

text \<open>
  \<^verbatim>\<open>wrap_model_layers\<close> (lines 74-86). The second component of the result lists the lines
  written by \<^verbatim>\<open>print\<close>, in order. The loop runs over the items of \<^verbatim>\<open>named_children()\<close>;
  \<open>slots\<close> is the model's \<^verbatim>\<open>_modules\<close> dictionary, which \<^verbatim>\<open>setattr\<close> updates at the key
  just enumerated. The recursive call wraps the sub-modules of \<open>child\<close> in place and returns
  a proxy that the loop drops; \<open>module p\<close> is \<open>child\<close> after that call, around which the
  loop builds the proxy it installs, with the indent of the current level.
\<close>

fun wrap_model_layers :: "'v pyobj \<Rightarrow> string \<Rightarrow> (error + 'v module) \<times> line list"
and wrap_loop :: "(string \<times> 'v module) list \<Rightarrow> (string \<times> 'v module) list \<Rightarrow> string
      \<Rightarrow> (error + (string \<times> 'v module) list) \<times> line list" where
  "wrap_model_layers (OtherObj x) ind = (Inl AssertionError, [])"
| "wrap_model_layers (ModuleObj (TimedLayer m n t i)) ind = (Inl AssertionError, [])"
| "wrap_model_layers (ModuleObj (Module c cs as f)) ind =
     (case wrap_loop cs cs ind of
        (Inl e, out) \<Rightarrow> (Inl e, TextLine (ind @ c) # out)
      | (Inr slots, out) \<Rightarrow>
          (TimedLayer_init (ModuleObj (Module c slots as f)) ind, TextLine (ind @ c) # out))"
| "wrap_loop [] slots ind = (Inr slots, [])"
| "wrap_loop ((attribute_name, child) # rest) slots ind =
     (case wrap_model_layers (ModuleObj child) (ind @ tab) of
        (Inl e, out) \<Rightarrow> (Inl e, out)
      | (Inr p, out) \<Rightarrow>
          (case TimedLayer_init (ModuleObj (module p)) ind of
             Inl e \<Rightarrow> (Inl e, out)
           | Inr wrapped_child \<Rightarrow>
               (case wrap_loop rest (AList.update attribute_name wrapped_child slots) ind of
                  (r, out') \<Rightarrow> (r, out @ out'))))"

text \<open>
  \<^verbatim>\<open>TimedLayer.get_timings\<close> (lines 58-71). The result is the dictionary with the keys
  \<^verbatim>\<open>module_name\<close>, \<^verbatim>\<open>total_time\<close> and \<^verbatim>\<open>sub_modules\<close>. Only a \<^verbatim>\<open>TimedLayer\<close> has the method:
  on a framework layer the lookup of \<^verbatim>\<open>get_timings\<close> raises. \<open>sub_timings\<close> is the loop
  over \<^verbatim>\<open>self._module.named_children()\<close>.
\<close>

datatype timings = Timings (t_module_name: string) (t_total_time: real) (t_sub_modules: "timings list")

text \<open>The number of objects in a tree, and in a list of named trees: the termination measures.\<close>

fun msize :: "'v module \<Rightarrow> nat" where
  "msize (Module c cs as f) = Suc (sum_list (map (\<lambda>(n, ch). msize ch) cs))"
| "msize (TimedLayer m n t i) = Suc (msize m)"

definition lsize :: "(string \<times> 'v module) list \<Rightarrow> nat" where
  "lsize cs = sum_list (map (\<lambda>(n, ch). msize ch) cs)"

function get_timings :: "'v module \<Rightarrow> error + timings"
and sub_timings :: "(string \<times> 'v module) list \<Rightarrow> error + timings list" where
  "get_timings (Module c cs as f) = Inl (AttributeError ''get_timings'')"
| "get_timings (TimedLayer m n t i) =
     (case sub_timings (named_children m) of
        Inl e \<Rightarrow> Inl e
      | Inr children \<Rightarrow> Inr (Timings n t children))"
| "sub_timings [] = Inr []"
| "sub_timings ((nm, child) # rest) =
     (if isinstance_TimedLayer child then
        (case get_timings child of
           Inl e \<Rightarrow> Inl e
         | Inr r \<Rightarrow>
             (case sub_timings rest of
                Inl e \<Rightarrow> Inl e
              | Inr rs \<Rightarrow> Inr (r # rs)))
      else sub_timings rest)"
  by pat_completeness auto
termination
proof (relation "measure (\<lambda>x. case x of Inl m \<Rightarrow> 2 * msize m | Inr cs \<Rightarrow> Suc (2 * lsize cs))",
    goal_cases)
  case 1
  show ?case by simp
next
  case (2 m n t i)
  show ?case by (cases m) (simp_all add: lsize_def)
next
  case (3 nm child rest)
  show ?case by (simp add: lsize_def)
next
  case (4 nm child rest)
  show ?case by (cases child) (simp_all add: lsize_def)
next
  case (5 nm child rest)
  show ?case by (cases child) (simp_all add: lsize_def)
qed

text \<open>
  Attribute access on a module object. Python first looks the name up on the object and its
  class (\<open>own_attribute\<close>) and calls \<^verbatim>\<open>__getattr__\<close> only when that fails. For a
  \<^verbatim>\<open>TimedLayer\<close> the object holds the three plain fields and the class the five methods of
  the source file; \<open>nn\<close> stands for the members inherited from \<^verbatim>\<open>torch.nn.Module\<close>.
  \<^verbatim>\<open>torch.nn.Module.__getattr__\<close> finds the registered sub-modules.
\<close>

datatype 'v attribute =
    Value 'v
  | Str string
  | Float real
  | Submodule "'v module"
  | Method string

fun own_attribute :: "(string \<Rightarrow> 'v attribute option) \<Rightarrow> 'v module \<Rightarrow> string \<Rightarrow> 'v attribute option" where
  "own_attribute nn (TimedLayer m n t i) name =
     (if name = ''_module_name'' then Some (Str n)
      else if name = ''_total_time_ms'' then Some (Float t)
      else if name = ''_indent'' then Some (Str i)
      else if name \<in> set [''forward'', ''__len__'', ''__iter__'', ''__getattr__'', ''get_timings'']
        then Some (Method name)
      else nn name)"
| "own_attribute nn (Module c cs as f) name =
     (case map_of as name of Some v \<Rightarrow> Some (Value v) | None \<Rightarrow> nn name)"

definition Module_getattr :: "'v module \<Rightarrow> string \<Rightarrow> error + 'v attribute" where
  "Module_getattr self name =
     (case map_of (named_children self) name of
        Some sub \<Rightarrow> Inr (Submodule sub)
      | None \<Rightarrow> Inl (AttributeError name))"

text \<open>
  \<^verbatim>\<open>getattr(obj, name)\<close>, and \<^verbatim>\<open>TimedLayer.__getattr__\<close> (lines 47-56): the lookup of the
  base class, and on its \<^verbatim>\<open>AttributeError\<close> the lookup on the wrapped module.
\<close>

fun getattr :: "(string \<Rightarrow> 'v attribute option) \<Rightarrow> 'v module \<Rightarrow> string \<Rightarrow> error + 'v attribute"
and TimedLayer_getattr :: "(string \<Rightarrow> 'v attribute option) \<Rightarrow> 'v module \<Rightarrow> string \<Rightarrow> real \<Rightarrow> string
      \<Rightarrow> string \<Rightarrow> error + 'v attribute" where
  "getattr nn (Module c cs as f) name =
     (case own_attribute nn (Module c cs as f) name of
        Some a \<Rightarrow> Inr a
      | None \<Rightarrow> Module_getattr (Module c cs as f) name)"
| "getattr nn (TimedLayer m n t i) name =
     (case own_attribute nn (TimedLayer m n t i) name of
        Some a \<Rightarrow> Inr a
      | None \<Rightarrow> TimedLayer_getattr nn m n t i name)"
| "TimedLayer_getattr nn m n t i attribute_name =
     (case Module_getattr (TimedLayer m n t i) attribute_name of
        Inr a \<Rightarrow> Inr a
      | Inl (AttributeError x) \<Rightarrow> getattr nn m attribute_name
      | Inl e \<Rightarrow> Inl e)"

text \<open>
  \<^verbatim>\<open>profile_function\<close> (lines 89-101). A callable has a behaviour, a docstring
  (\<^verbatim>\<open>__doc__\<close>, possibly \<^verbatim>\<open>None\<close>) and, when it is a function, a name (\<^verbatim>\<open>__name__\<close>); a
  callable object such as a \<^verbatim>\<open>functools.partial\<close> or a module has none, and reading
  \<^verbatim>\<open>f.__name__\<close> raises. \<^verbatim>\<open>functools.wraps(f)\<close> copies onto the wrapper those of the two
  attributes that \<open>f\<close> has. The wrapper reads \<^verbatim>\<open>f.__name__\<close> when it formats the line, after
  the second clock reading.
\<close>

record ('a, 'b) callable =
  fn_name :: "string option"
  fn_doc :: "string option"
  fn_call :: "'a \<Rightarrow> world \<Rightarrow> (error + 'b) \<times> world"

definition wraps :: "('a, 'b) callable \<Rightarrow> ('a, 'b) callable \<Rightarrow> ('a, 'b) callable" where
  "wraps f wrapper =
     wrapper\<lparr>fn_name := (case fn_name f of Some n \<Rightarrow> Some n | None \<Rightarrow> fn_name wrapper),
       fn_doc := fn_doc f\<rparr>"

definition profile_function :: "env \<Rightarrow> ('a, 'b) callable \<Rightarrow> ('a, 'b) callable" where
  "profile_function env f =
     wraps f \<lparr>fn_name = Some ''wrap'', fn_doc = None,
       fn_call = (\<lambda>args w.
         let (ts, w1) = time_time env w
         in case fn_call f args w1 of
              (Inl e, w2) \<Rightarrow> (Inl e, w2)
            | (Inr result, w2) \<Rightarrow>
                (let (te, w3) = time_time env w2;
                     elapsed_ms = (te - ts) * 1000
                 in case fn_name f of
                      None \<Rightarrow> (Inl (AttributeError ''__name__''), w3)
                    | Some name \<Rightarrow>
                        (Inr result, logger_info (FunctionLine name elapsed_ms) w3)))\<rparr>"

section \<open>\<^verbatim>\<open>src/object_detection/timing.py\<close>\<close>

text \<open>
  The older variant. Its \<^verbatim>\<open>TimedLayer\<close> has the fields \<^verbatim>\<open>layer\<close>, \<^verbatim>\<open>_total_time\<close> and
  \<^verbatim>\<open>indent\<close>; a layer is given by its class name and by those of its attributes whose value
  is a \<^verbatim>\<open>torch.nn.Module\<close>, in the order of \<^verbatim>\<open>dir(model)\<close> (the loop of
  \<^verbatim>\<open>wrap_model_layers\<close> skips every other attribute). The constructor, the wrapping function
  and the decorator are modelled.
\<close>

datatype 'v od_module =
    OdModule (od_class_name: string) (od_attrs: "(string \<times> 'v od_module) list")
  | OdTimedLayer (layer: "'v od_module") (total_time: real) (od_indent: string)

fun isinstance_OdTimedLayer :: "'v od_module \<Rightarrow> bool" where
  "isinstance_OdTimedLayer (OdTimedLayer l t i) = True"
| "isinstance_OdTimedLayer (OdModule c as) = False"

text \<open>\<^verbatim>\<open>TimedLayer.__init__\<close> (lines 10-14): three assignments, no check.\<close>

definition od_TimedLayer_init :: "'v od_module \<Rightarrow> string \<Rightarrow> 'v od_module" where
  "od_TimedLayer_init l ind = OdTimedLayer l 0 ind"

text \<open>
  \<^verbatim>\<open>wrap_model_layers\<close> (lines 57-64). The function returns \<^verbatim>\<open>None\<close>: the first component
  of the result is the value returned, the second the model after the call. The loop
  installs \<^verbatim>\<open>TimedLayer(attr, indent)\<close> and then wraps the attributes of \<open>attr\<close> in place,
  so the installed proxy holds \<open>attr\<close> as the recursive call leaves it. A
  \<^verbatim>\<open>TimedLayer\<close> is a module whose only module-valued attribute is \<^verbatim>\<open>layer\<close>.
\<close>

fun od_wrap_model_layers :: "'v od_module \<Rightarrow> string \<Rightarrow> 'v od_module option \<times> 'v od_module"
and od_wrap_loop :: "(string \<times> 'v od_module) list \<Rightarrow> (string \<times> 'v od_module) list \<Rightarrow> string
      \<Rightarrow> (string \<times> 'v od_module) list" where
  "od_wrap_model_layers (OdModule c as) ind = (None, OdModule c (od_wrap_loop as as ind))"
| "od_wrap_model_layers (OdTimedLayer l t i) ind =
     (None, OdTimedLayer
        (od_TimedLayer_init (snd (od_wrap_model_layers l (ind @ tab))) ind) t i)"
| "od_wrap_loop [] slots ind = slots"
| "od_wrap_loop ((a, attr) # rest) slots ind =
     od_wrap_loop rest
       (AList.update a
          (od_TimedLayer_init (snd (od_wrap_model_layers attr (ind @ tab))) ind) slots) ind"

text \<open>\<^verbatim>\<open>profile_function\<close> (lines 67-79): as above, with \<^verbatim>\<open>print\<close> for \<^verbatim>\<open>logger.info\<close>.\<close>

definition od_profile_function :: "env \<Rightarrow> ('a, 'b) callable \<Rightarrow> ('a, 'b) callable" where
  "od_profile_function env f =
     wraps f \<lparr>fn_name = Some ''wrap'', fn_doc = None,
       fn_call = (\<lambda>args w.
         let (ts, w1) = time_time env w
         in case fn_call f args w1 of
              (Inl e, w2) \<Rightarrow> (Inl e, w2)
            | (Inr result, w2) \<Rightarrow>
                (let (te, w3) = time_time env w2;
                     elapsed_ms = (te - ts) * 1000
                 in case fn_name f of
                      None \<Rightarrow> (Inl (AttributeError ''__name__''), w3)
                    | Some name \<Rightarrow>
                        (Inr result, print (FunctionLine name elapsed_ms) w3)))\<rparr>"

section \<open>Properties of module trees\<close>

text \<open>
  \<^verbatim>\<open>_modules\<close> is a dictionary: in a well-formed tree the names registered on one layer are
  distinct. A tree is proxy-free when none of its nodes is a \<^verbatim>\<open>TimedLayer\<close>.
\<close>

fun well_formed :: "'v module \<Rightarrow> bool" where
  "well_formed (Module c cs as f) = (distinct (map fst cs) \<and> list_all (\<lambda>(n, ch). well_formed ch) cs)"
| "well_formed (TimedLayer m n t i) = well_formed m"

fun proxy_free :: "'v module \<Rightarrow> bool" where
  "proxy_free (Module c cs as f) = list_all (\<lambda>(n, ch). proxy_free ch) cs"
| "proxy_free (TimedLayer m n t i) = False"

text \<open>
  Coverage: the object is a \<^verbatim>\<open>TimedLayer\<close>, and so is, recursively, whatever each child slot
  of the module it wraps holds.
\<close>

function fully_wrapped :: "'v module \<Rightarrow> bool" where
  "fully_wrapped (Module c cs as f) = False"
| "fully_wrapped (TimedLayer m n t i) = list_all (\<lambda>(nm, ch). fully_wrapped ch) (named_children m)"
  by pat_completeness auto
termination
proof (relation "measure msize", goal_cases)
  case 1
  show ?case by simp
next
  case (2 m n t i x nm ch)
  have "msize ch \<le> lsize cs" if "(nm, ch) \<in> set cs" for cs
    using that by (induction cs) (auto simp: lsize_def)
  from this[of "named_children m"] 2 show ?case
    by (cases m) (auto simp: lsize_def)
qed

text \<open>The module with every \<^verbatim>\<open>TimedLayer\<close> taken out again.\<close>

fun strip :: "'v module \<Rightarrow> 'v module" where
  "strip (Module c cs as f) = Module c (map (\<lambda>(n, ch). (n, strip ch)) cs) as f"
| "strip (TimedLayer m n t i) = strip m"

text \<open>The shape of a tree of layers, and of a timing report: names and children, in order.\<close>

datatype shape = Shape string "shape list"

fun module_shape :: "'v module \<Rightarrow> shape" where
  "module_shape (Module c cs as f) = Shape c (map (\<lambda>(n, ch). module_shape ch) cs)"
| "module_shape (TimedLayer m n t i) = Shape ''TimedLayer'' [module_shape m]"

fun timings_shape :: "timings \<Rightarrow> shape" where
  "timings_shape (Timings n t subs) = Shape n (map timings_shape subs)"

fun durations_nonneg :: "timings \<Rightarrow> bool" where
  "durations_nonneg (Timings n t subs) = (0 \<le> t \<and> list_all durations_nonneg subs)"

text \<open>
  The proxy that \<^verbatim>\<open>wrap_model_layers\<close> returns for a proxy-free tree, written as one
  recursion over the tree: the proxy of the layer, whose slots hold proxies, with the
  indent of the layer, around the children as their own wrapping leaves them.
\<close>

fun wrapped :: "string \<Rightarrow> 'v module \<Rightarrow> 'v module" where
  "wrapped ind (Module c cs as f) =
     TimedLayer
       (Module c
          (map (\<lambda>(n, ch). (n, TimedLayer (module (wrapped (ind @ tab) ch)) (cls_name ch) 0 ind)) cs)
          as f)
       c 0 ind"
| "wrapped ind (TimedLayer m n t i) = TimedLayer m n t i"

text \<open>
  For the timing report: the tree with every stored duration reset, the trees in which no
  stored duration is negative, and the proxies whose report mirrors the tree they wrap (the
  stored name is the class name of the wrapped layer, and every slot of it holds such a
  proxy).
\<close>

fun forget :: "'v module \<Rightarrow> 'v module" where
  "forget (Module c cs as f) = Module c (map (\<lambda>(n, ch). (n, forget ch)) cs) as f"
| "forget (TimedLayer m n t i) = TimedLayer (forget m) n 0 i"

fun nonneg_times :: "'v module \<Rightarrow> bool" where
  "nonneg_times (Module c cs as f) = list_all (\<lambda>(n, ch). nonneg_times ch) cs"
| "nonneg_times (TimedLayer m n t i) = (0 \<le> t \<and> nonneg_times m)"

fun proper :: "'v module \<Rightarrow> bool" where
  "proper (TimedLayer (Module c cs as f) n t i) = (n = c \<and> list_all (\<lambda>(k, q). proper q) cs)"
| "proper (TimedLayer (TimedLayer m n' t' i') n t i) = False"
| "proper (Module c cs as f) = False"

text \<open>Small trees on which the definitions are evaluated.\<close>

definition example_leaf :: "int module" where
  "example_leaf = Module ''Leaf'' [] [] (\<lambda>g x. Return (x + 1))"

definition example_body :: "bool \<Rightarrow> int \<Rightarrow> int prog" where
  "example_body = (\<lambda>g x. Call ''a'' x (\<lambda>r. case r of Inl e \<Rightarrow> Raise e | Inr v \<Rightarrow> Return (2 * v)))"

definition example_root :: "int module" where
  "example_root = Module ''Root'' [(''a'', example_leaf)] [] example_body"

definition example_deep :: "int module" where
  "example_deep = Module ''Top'' [(''a'', example_root)] [] example_body"

definition od_example_root :: "int od_module" where
  "od_example_root = OdModule ''Root'' [(''a'', OdModule ''Leaf'' [])]"

definition od_example_deep :: "int od_module" where
  "od_example_deep = OdModule ''Top'' [(''a'', od_example_root)]"

definition example_env :: env where
  "example_env =
     \<lparr>clock = (\<lambda>n. 1700000000 + real n), cuda_is_available = False, cuda_synchronize = None\<rparr>"

definition example_world :: world where
  "example_world = \<lparr>ticks = 0, grad_enabled = True, log = [], stdout = []\<rparr>"



definition failing_fn :: "(int, int) callable" where
  "failing_fn =
     \<lparr>fn_name = Some ''bad'', fn_doc = None, fn_call = (\<lambda>x w. (Inl (RuntimeError ''boom''), w))\<rparr>"

definition double_fn :: "(int, int) callable" where
  "double_fn =
     \<lparr>fn_name = Some ''f'', fn_doc = Some ''doubles'', fn_call = (\<lambda>x w. (Inr (x * 2), w))\<rparr>"

definition double_partial :: "(int, int) callable" where
  "double_partial = \<lparr>fn_name = None, fn_doc = None, fn_call = (\<lambda>x w. (Inr (x * 2), w))\<rparr>"

definition backward_env :: env where
  "backward_env =
     \<lparr>clock = (\<lambda>n. 1700000000 - real n), cuda_is_available = False, cuda_synchronize = None\<rparr>"

definition example_mixed :: "int module" where
  "example_mixed = TimedLayer
     (Module ''Root'' [(''a'', example_leaf), (''b'', TimedLayer example_leaf ''Leaf'' 3 tab)] [] example_body)
     ''Root'' 7 tab"

definition example_attrs :: "int module" where
  "example_attrs = Module ''Backbone'' [] [(''out_channels'', 256), (''_indent'', 7)] (\<lambda>g x. Return x)"

section \<open>Invoking a module\<close>

text \<open>
  \<open>forward env m a w\<close> is the call \<^verbatim>\<open>m(a)\<close> in the world \<open>w\<close>: the result or the error
  raised, the object \<open>m\<close> after the call (a \<^verbatim>\<open>TimedLayer\<close> stores the duration in itself)
  and the world after the call. For a framework layer it runs the body, which receives the
  gradient mode of the moment; \<open>run_body\<close> looks a called sub-module up in the layer's
  \<^verbatim>\<open>_modules\<close> and puts the object back as the call leaves it. For a \<^verbatim>\<open>TimedLayer\<close> it
  is \<^verbatim>\<open>TimedLayer.forward\<close> (lines 28-39): \<^verbatim>\<open>with torch.no_grad()\<close> switches gradient
  recording off and restores the former mode when the block is left, also by an error.
\<close>

function forward :: "env \<Rightarrow> 'v module \<Rightarrow> 'v \<Rightarrow> world \<Rightarrow> (error + 'v) \<times> 'v module \<times> world"
and run_body :: "env \<Rightarrow> (string \<times> 'v module) list \<Rightarrow> 'v prog \<Rightarrow> world
      \<Rightarrow> (error + 'v) \<times> (string \<times> 'v module) list \<times> world" where
  "forward env (Module c cs as f) a w =
     (case run_body env cs (f (grad_enabled w) a) w of
        (r, cs', w') \<Rightarrow> (r, Module c cs' as f, w'))"
| "forward env (TimedLayer m n t i) a w =
     (let prev = grad_enabled w;
          w0 = w\<lparr>grad_enabled := False\<rparr>;
          (start_time, w1) = time_time env w0
      in case forward env m a w1 of
           (Inl e, m', w2) \<Rightarrow> (Inl e, TimedLayer m' n t i, w2\<lparr>grad_enabled := prev\<rparr>)
         | (Inr x, m', w2) \<Rightarrow>
             (case (if cuda_is_available env then cuda_synchronize env else None) of
                Some e \<Rightarrow> (Inl e, TimedLayer m' n t i, w2\<lparr>grad_enabled := prev\<rparr>)
              | None \<Rightarrow>
                  (let (end_time, w3) = time_time env w2;
                       total = (end_time - start_time) * 1000;
                       w4 = logger_info (LayerLine i n total) w3
                   in (Inr x, TimedLayer m' n total i, w4\<lparr>grad_enabled := prev\<rparr>))))"
| "run_body env cs (Return v) w = (Inr v, cs, w)"
| "run_body env cs (Raise e) w = (Inl e, cs, w)"
| "run_body env cs (Call name a k) w =
     (case map_of cs name of
        None \<Rightarrow> run_body env cs (k (Inl (AttributeError name))) w
      | Some child \<Rightarrow>
          (case forward env child a w of
             (r, child', w') \<Rightarrow> run_body env (AList.update name child' cs) (k r) w'))"
  by pat_completeness auto

text \<open>
  Termination: a call leaves the size of the object as it was, so the sub-modules that a
  body calls stay smaller than the layer, and a body makes finitely many calls.
\<close>

inductive_set prog_sub :: "('v prog \<times> 'v prog) set" where
  "(k r, Call name a k) \<in> prog_sub"

lemma lsize_Nil [simp]: "lsize [] = 0"
  by (simp add: lsize_def)

lemma lsize_Cons [simp]: "lsize ((n, ch) # cs) = msize ch + lsize cs"
  by (simp add: lsize_def)

lemma map_of_lsize: "map_of cs n = Some ch \<Longrightarrow> msize ch \<le> lsize cs"
  by (induction cs) (auto split: if_splits)

lemma update_lsize:
  "map_of cs n = Some ch \<Longrightarrow> msize ch' = msize ch \<Longrightarrow> lsize (AList.update n ch' cs) = lsize cs"
  by (induction cs) (auto split: if_splits)

lemma forward_msize_dom:
  "forward_run_body_dom (Inl (env, m :: 'v module, a, w)) \<Longrightarrow>
     msize (fst (snd (forward env m a w))) = msize m"
  "forward_run_body_dom (Inr (env', cs :: (string \<times> 'v module) list, p, w')) \<Longrightarrow>
     lsize (fst (snd (run_body env' cs p w'))) = lsize cs"
proof (induction env m a w and env' cs p w' rule: forward_run_body.pinduct)
  case (1 env c cs as f a w)
  then show ?case
    by (auto simp: forward.psimps lsize_def split: prod.splits)
next
  case (2 env m n t i a w)
  then show ?case
    by (auto simp: forward.psimps time_time_def Let_def
        split: prod.splits sum.splits option.splits)
next
  case (3 env cs v w)
  then show ?case by (simp add: run_body.psimps)
next
  case (4 env cs e w)
  then show ?case by (simp add: run_body.psimps)
next
  case (5 env cs name a k w)
  show ?case
  proof (cases "map_of cs name")
    case None
    with 5 show ?thesis by (simp add: run_body.psimps)
  next
    case (Some child)
    obtain r child' w' where inv: "forward env child a w = (r, child', w')"
      by (cases "forward env child a w") auto
    from 5(3)[OF Some] inv have sz: "msize child' = msize child" by simp
    from 5(4)[OF Some inv[symmetric] refl] have
      "lsize (fst (snd (run_body env (AList.update name child' cs) (k r) w')))
         = lsize (AList.update name child' cs)" by simp
    with 5(1) Some inv sz show ?thesis
      by (simp add: run_body.psimps update_lsize)
  qed
qed

lemma wf_prog_sub: "wf prog_sub"
  unfolding wf_def
proof (intro allI impI)
  fix P :: "'v prog \<Rightarrow> bool" and x
  assume H: "\<forall>x. (\<forall>y. (y, x) \<in> prog_sub \<longrightarrow> P y) \<longrightarrow> P x"
  show "P x"
  proof (induction x)
    case (Return v)
    show ?case by (rule H[rule_format]) (auto elim: prog_sub.cases)
  next
    case (Raise e)
    show ?case by (rule H[rule_format]) (auto elim: prog_sub.cases)
  next
    case (Call n a k)
    show ?case by (rule H[rule_format]) (auto elim!: prog_sub.cases intro: Call)
  qed
qed

termination forward
proof (relation "inv_image (less_than <*lex*> prog_sub)
         (\<lambda>x. case x of Inl (env, m, a, w) \<Rightarrow> (2 * msize m, Raise AssertionError)
                       | Inr (env, cs, p, w) \<Rightarrow> (Suc (2 * lsize cs), p))", goal_cases)
  case 1
  show ?case by (intro wf_inv_image wf_lex_prod wf_less_than wf_prog_sub)
next
  case (2 env c cs as f a w)
  show ?case by (simp add: lsize_def)
next
  case (3 env m n t i a w)
  show ?case by simp
next
  case (4 env cs name a k w)
  show ?case by (simp add: prog_sub.intros)
next
  case (5 env cs name a k w child)
  then show ?case using map_of_lsize[of cs name child] by simp
next
  case prems: (6 env cs name a k w child)
  have "forward_run_body_dom (Inl (env, child, a, w)) \<Longrightarrow>
          msize (fst (snd (forward env child a w))) = msize child"
    by (rule forward_msize_dom(1))
  with prems show ?case
    by (cases "forward env child a w") (auto simp: prog_sub.intros update_lsize)
qed

section \<open>What \<^verbatim>\<open>wrap_model_layers\<close> builds\<close>

lemma update_middle:
  "n \<notin> fst ` set pre \<Longrightarrow> AList.update n q (pre @ (n, ch) # rest) = pre @ (n, q) # rest"
  by (induction pre) auto

lemma cls_name_module_wrapped: "proxy_free m \<Longrightarrow> cls_name (module (wrapped ind m)) = cls_name m"
  by (cases m) simp_all

lemma not_TimedLayer_module_wrapped: "proxy_free m \<Longrightarrow> \<not> isinstance_TimedLayer (module (wrapped ind m))"
  by (cases m) simp_all

text \<open>
  When the call returns, the tree held no proxy and the result is \<open>wrapped\<close>. In the loop,
  \<open>pre\<close> are the slots already replaced: the dictionary is \<open>pre @ rest\<close> when the loop
  reaches \<open>rest\<close>.
\<close>

lemma wrap_char:
  "well_formed (m :: 'v module) \<Longrightarrow> obj = ModuleObj m \<Longrightarrow> wrap_model_layers obj ind = (Inr p, out)
     \<Longrightarrow> proxy_free m \<and> p = wrapped ind m"
  "list_all (\<lambda>(n, ch). well_formed ch) (rest :: (string \<times> 'v module) list) \<Longrightarrow> slots = pre @ rest
     \<Longrightarrow> distinct (map fst (pre @ rest))
     \<Longrightarrow> wrap_loop rest slots ind' = (Inr slots', out')
     \<Longrightarrow> list_all (\<lambda>(n, ch). proxy_free ch) rest
        \<and> slots' = pre @ map (\<lambda>(n, ch).
              (n, TimedLayer (module (wrapped (ind' @ tab) ch)) (cls_name ch) 0 ind')) rest"
proof (induction obj ind and rest slots ind' arbitrary: m p out and pre slots' out'
    rule: wrap_model_layers_wrap_loop.induct)
  case (1 x ind)
  then show ?case by simp
next
  case (2 m0 n t i ind)
  then show ?case by auto
next
  case (3 c cs as f ind)
  from 3(3) have m: "m = Module c cs as f" by simp
  from 3(4) obtain slots out0 where loop: "wrap_loop cs cs ind = (Inr slots, out0)"
    and p: "p = TimedLayer (Module c slots as f) c 0 ind"
    by (auto simp: TimedLayer_init_def split: prod.splits sum.splits)
  from 3(2) m have wf: "list_all (\<lambda>(n, ch). well_formed ch) cs" "distinct (map fst ([] @ cs))"
    by simp_all
  from 3(1)[OF wf(1) _ wf(2) loop] have
    "list_all (\<lambda>(n, ch). proxy_free ch) cs"
    "slots = map (\<lambda>(n, ch). (n, TimedLayer (module (wrapped (ind @ tab) ch)) (cls_name ch) 0 ind)) cs"
    by simp_all
  with m p show ?case by simp
next
  case (4 slots ind)
  then show ?case by simp
next
  case (5 attribute_name child rest slots ind)
  from 5(6) obtain q out1 where w: "wrap_model_layers (ModuleObj child) (ind @ tab) = (Inr q, out1)"
    by (auto split: prod.splits sum.splits)
  from 5(3) have wfc: "well_formed child" and wfr: "list_all (\<lambda>(n, ch). well_formed ch) rest"
    by simp_all
  from 5(1)[OF wfc refl w] have pf: "proxy_free child" and q: "q = wrapped (ind @ tab) child"
    by simp_all
  from pf have nt: "\<not> isinstance_TimedLayer (module q)"
    unfolding q by (rule not_TimedLayer_module_wrapped)
  define wc where "wc = TimedLayer (module q) (cls_name (module q)) 0 ind"
  have init: "TimedLayer_init (ModuleObj (module q)) ind = Inr wc"
    using nt by (simp add: TimedLayer_init_def wc_def)
  from 5(6) w init obtain out2 where
    loop: "wrap_loop rest (AList.update attribute_name wc slots) ind = (Inr slots', out2)"
    by (auto split: prod.splits sum.splits)
  from 5(5) have notin: "attribute_name \<notin> fst ` set pre" by auto
  have upd: "AList.update attribute_name wc slots = (pre @ [(attribute_name, wc)]) @ rest"
    using 5(4) notin by (simp add: update_middle)
  have dist: "distinct (map fst ((pre @ [(attribute_name, wc)]) @ rest))"
    using 5(5) by simp
  from 5(2)[OF w[symmetric] refl init wfr upd dist loop]
  have "list_all (\<lambda>(n, ch). proxy_free ch) rest"
    "slots' = (pre @ [(attribute_name, wc)]) @ map (\<lambda>(n, ch).
        (n, TimedLayer (module (wrapped (ind @ tab) ch)) (cls_name ch) 0 ind)) rest"
    by simp_all
  with pf show ?case
    by (simp add: wc_def q cls_name_module_wrapped)
qed

text \<open>On a well-formed proxy-free tree no assertion fails.\<close>

lemma wrap_succeeds:
  "well_formed (m :: 'v module) \<Longrightarrow> proxy_free m \<Longrightarrow> obj = ModuleObj m
     \<Longrightarrow> \<exists>p out. wrap_model_layers obj ind = (Inr p, out)"
  "list_all (\<lambda>(n, ch). well_formed ch) (rest :: (string \<times> 'v module) list)
     \<Longrightarrow> list_all (\<lambda>(n, ch). proxy_free ch) rest
     \<Longrightarrow> \<exists>slots' out. wrap_loop rest slots ind' = (Inr slots', out)"
proof (induction obj ind and rest slots ind' arbitrary: m rule: wrap_model_layers_wrap_loop.induct)
  case (1 x ind)
  then show ?case by simp
next
  case (2 m0 n t i ind)
  then show ?case by auto
next
  case (3 c cs as f ind)
  then have "\<exists>slots' out. wrap_loop cs cs ind = (Inr slots', out)" by auto
  then show ?case by (auto simp: TimedLayer_init_def)
next
  case (4 slots ind)
  then show ?case by simp
next
  case (5 attribute_name child rest slots ind)
  from 5(3,4) have c: "well_formed child" "proxy_free child"
    and r: "list_all (\<lambda>(n, ch). well_formed ch) rest" "list_all (\<lambda>(n, ch). proxy_free ch) rest"
    by simp_all
  from 5(1)[OF c refl] obtain q out1 where
    w: "wrap_model_layers (ModuleObj child) (ind @ tab) = (Inr q, out1)" by blast
  from wrap_char(1)[OF c(1) refl w] have q: "q = wrapped (ind @ tab) child" by simp
  from c(2) have nt: "\<not> isinstance_TimedLayer (module q)"
    unfolding q by (rule not_TimedLayer_module_wrapped)
  then have init: "TimedLayer_init (ModuleObj (module q)) ind
      = Inr (TimedLayer (module q) (cls_name (module q)) 0 ind)"
    by (simp add: TimedLayer_init_def)
  from 5(2)[OF w[symmetric] refl init r] obtain slots' out2 where
    "wrap_loop rest
       (AList.update attribute_name (TimedLayer (module q) (cls_name (module q)) 0 ind) slots) ind
       = (Inr slots', out2)" by blast
  with w init show ?case by simp
qed

lemma fully_wrapped_installed:
  "proxy_free m \<Longrightarrow> fully_wrapped (TimedLayer (module (wrapped ind m)) nm t ind')"
proof (induction m arbitrary: ind nm t ind')
  case (Module c cs as f)
  then show ?case
    by (fastforce simp: list_all_iff)
next
  case (TimedLayer m n t i)
  then show ?case by simp
qed

lemma fully_wrapped_wrapped: "proxy_free m \<Longrightarrow> fully_wrapped (wrapped ind m)"
  using fully_wrapped_installed[of m ind "cls_name m" 0 ind] by (cases m) simp_all

lemma wrap_example_root:
  "wrap_model_layers (ModuleObj example_root) tab
     = (Inr (TimedLayer (Module ''Root'' [(''a'', TimedLayer example_leaf ''Leaf'' 0 tab)] [] example_body)
              ''Root'' 0 tab),
        [TextLine (tab @ ''Root''), TextLine (tab @ tab @ ''Leaf'')])"
  by (simp add: example_root_def example_leaf_def TimedLayer_init_def)

lemma wrap_example_leaf:
  "wrap_model_layers (ModuleObj example_leaf) ind
     = (Inr (TimedLayer example_leaf ''Leaf'' 0 ind), [TextLine (ind @ ''Leaf'')])"
  by (simp add: example_leaf_def TimedLayer_init_def)

lemma example_root_ok: "well_formed example_root" "proxy_free example_root"
  by (simp_all add: example_root_def example_leaf_def)

section \<open>Calls through proxies and calls on the plain tree\<close>


lemma map_of_list_all: "map_of cs n = Some ch \<Longrightarrow> list_all (\<lambda>(n, ch). P ch) cs \<Longrightarrow> P ch"
  by (induction cs) (auto split: if_splits)






lemma strip_module_wrapped: "proxy_free m \<Longrightarrow> strip (module (wrapped ind m)) = m"
proof (induction m arbitrary: ind)
  case (Module c cs as f)
  have "strip (module (wrapped (ind @ tab) ch)) = ch" if "(n, ch) \<in> set cs" for n ch
    using that Module.IH[of "(n, ch)" ch "ind @ tab"] Module.prems
    by (auto simp: list_all_iff)
  then have "map (\<lambda>(n, ch). (n, strip ch))
          (map (\<lambda>(n, ch). (n, TimedLayer (module (wrapped (ind @ tab) ch)) (cls_name ch) 0 ind)) cs) = cs"
    unfolding map_map by (intro map_idI) auto
  then show ?case by simp
next
  case (TimedLayer m n t i)
  then show ?case by simp
qed



section \<open>Durations and reports\<close>

text \<open>
  A call changes stored durations only, and with a clock that does not run backwards it
  stores no negative one.
\<close>

lemma list_all_update:
  "list_all (\<lambda>(n, ch). P ch) cs \<Longrightarrow> P ch' \<Longrightarrow> list_all (\<lambda>(n, ch). P ch) (AList.update name ch' cs)"
  by (induction cs) auto

lemma map_forget_update:
  "map_of cs name = Some ch \<Longrightarrow> forget ch' = forget ch \<Longrightarrow>
     map (\<lambda>(n, ch). (n, forget ch)) (AList.update name ch' cs) = map (\<lambda>(n, ch). (n, forget ch)) cs"
  by (induction cs) (auto split: if_splits)

lemma forward_times:
  assumes mono: "mono (clock env0)"
  shows
  "env = env0 \<Longrightarrow> nonneg_times (m :: 'v module) \<Longrightarrow>
     nonneg_times (fst (snd (forward env m a w)))
     \<and> forget (fst (snd (forward env m a w))) = forget m
     \<and> ticks w \<le> ticks (snd (snd (forward env m a w)))"
  "env' = env0 \<Longrightarrow> list_all (\<lambda>(n, ch). nonneg_times ch) (cs :: (string \<times> 'v module) list) \<Longrightarrow>
     list_all (\<lambda>(n, ch). nonneg_times ch) (fst (snd (run_body env' cs p w')))
     \<and> map (\<lambda>(n, ch). (n, forget ch)) (fst (snd (run_body env' cs p w')))
         = map (\<lambda>(n, ch). (n, forget ch)) cs
     \<and> ticks w' \<le> ticks (snd (snd (run_body env' cs p w')))"
proof (induction env m a w and env' cs p w' rule: forward_run_body.induct)
  case (1 env c cs as f a w)
  then show ?case by (auto split: prod.splits)
next
  case (2 env m n t i a w)
  let ?w1 = "w\<lparr>grad_enabled := False, ticks := Suc (ticks w)\<rparr>"
  from 2(3) have nn: "nonneg_times m" by simp
  from 2(1)[OF refl refl refl _ 2(2) nn, of "clock env (ticks w)" ?w1]
  have IH: "nonneg_times (fst (snd (forward env m a ?w1)))"
    "forget (fst (snd (forward env m a ?w1))) = forget m"
    "Suc (ticks w) \<le> ticks (snd (snd (forward env m a ?w1)))"
    by (simp_all add: time_time_def)
  obtain r m' w2 where fw: "forward env m a ?w1 = (r, m', w2)"
    by (cases "forward env m a ?w1") auto
  from IH(3) fw have "ticks w \<le> ticks w2" by simp
  with mono 2(2) have "clock env (ticks w) \<le> clock env (ticks w2)" by (simp add: monoD)
  then have "0 \<le> (clock env (ticks w2) - clock env (ticks w)) * 1000" by simp
  with IH fw 2(3) show ?case
    by (auto simp: time_time_def Let_def logger_info_def split: sum.splits option.splits)
next
  case (3 env cs v w)
  then show ?case by simp
next
  case (4 env cs e w)
  then show ?case by simp
next
  case (5 env cs name a k w)
  show ?case
  proof (cases "map_of cs name")
    case None
    with 5 show ?thesis by simp
  next
    case (Some child)
    from map_of_list_all[OF Some 5(5)] have nn: "nonneg_times child" .
    obtain r child' w1 where fw: "forward env child a w = (r, child', w1)"
      by (cases "forward env child a w") auto
    from 5(2)[OF Some 5(4) nn] fw have
      c: "nonneg_times child'" "forget child' = forget child" "ticks w \<le> ticks w1" by simp_all
    have la: "list_all (\<lambda>(n, ch). nonneg_times ch) (AList.update name child' cs)"
      using 5(5) c(1) by (rule list_all_update)
    from 5(3)[OF Some fw[symmetric] refl 5(4) la]
    have IH: "list_all (\<lambda>(n, ch). nonneg_times ch)
          (fst (snd (run_body env (AList.update name child' cs) (k r) w1)))"
      "map (\<lambda>(n, ch). (n, forget ch)) (fst (snd (run_body env (AList.update name child' cs) (k r) w1)))
         = map (\<lambda>(n, ch). (n, forget ch)) (AList.update name child' cs)"
      "ticks w1 \<le> ticks (snd (snd (run_body env (AList.update name child' cs) (k r) w1)))"
      by simp_all
    from Some fw IH c show ?thesis
      by (simp add: map_forget_update[OF Some c(2)])
  qed
qed

lemma strip_forget: "strip (forget m) = strip m"
  by (induction m) auto

lemma proper_forget: "proper (forget m) = proper m"
proof (induction m rule: proper.induct)
  case (1 c cs as f n t i)
  then show ?case by (auto simp: list_all_iff)
qed simp_all

lemma sub_timings_proper:
  assumes "\<And>k q. (k, q) \<in> set cs \<Longrightarrow> proper q \<and> (\<exists>rep. get_timings q = Inr rep
            \<and> timings_shape rep = module_shape (strip q)
            \<and> (nonneg_times q \<longrightarrow> durations_nonneg rep))"
  shows "\<exists>rs. sub_timings cs = Inr rs
     \<and> map timings_shape rs = map (\<lambda>(k, q). module_shape (strip q)) cs
     \<and> (list_all (\<lambda>(k, q). nonneg_times q) cs \<longrightarrow> list_all durations_nonneg rs)"
  using assms
proof (induction cs)
  case Nil
  then show ?case by simp
next
  case (Cons x cs)
  obtain k q where x: "x = (k, q)" by (cases x) auto
  from Cons.prems[of k q] x obtain rep where q: "proper q" "get_timings q = Inr rep"
    "timings_shape rep = module_shape (strip q)" "nonneg_times q \<longrightarrow> durations_nonneg rep"
    by auto
  from q(1) have tl: "isinstance_TimedLayer q" by (cases q) auto
  from Cons.IH Cons.prems obtain rs where rs: "sub_timings cs = Inr rs"
    "map timings_shape rs = map (\<lambda>(k, q). module_shape (strip q)) cs"
    "list_all (\<lambda>(k, q). nonneg_times q) cs \<longrightarrow> list_all durations_nonneg rs"
    by auto
  from x q tl rs show ?case by simp
qed

lemma get_timings_proper:
  "proper p \<Longrightarrow> \<exists>rep. get_timings p = Inr rep \<and> timings_shape rep = module_shape (strip p)
     \<and> (nonneg_times p \<longrightarrow> durations_nonneg rep)"
proof (induction p rule: proper.induct)
  case (1 c cs as f n t i)
  have H: "\<And>k q. (k, q) \<in> set cs \<Longrightarrow> proper q \<and> (\<exists>rep. get_timings q = Inr rep
            \<and> timings_shape rep = module_shape (strip q)
            \<and> (nonneg_times q \<longrightarrow> durations_nonneg rep))"
    using 1 by (auto simp: list_all_iff)
  have "\<exists>rs. sub_timings cs = Inr rs
     \<and> map timings_shape rs = map (\<lambda>(k, q). module_shape (strip q)) cs
     \<and> (list_all (\<lambda>(k, q). nonneg_times q) cs \<longrightarrow> list_all durations_nonneg rs)"
    by (rule sub_timings_proper) (use H in blast)
  then obtain rs where rs: "sub_timings cs = Inr rs"
    "map timings_shape rs = map (\<lambda>(k, q). module_shape (strip q)) cs"
    "list_all (\<lambda>(k, q). nonneg_times q) cs \<longrightarrow> list_all durations_nonneg rs"
    by blast
  from 1(2) have "n = c" by simp
  with rs show ?case by (simp add: comp_def case_prod_unfold)
qed simp_all

lemma proper_installed:
  "proxy_free m \<Longrightarrow> proper (TimedLayer (module (wrapped ind m)) (cls_name m) t ind')
     \<and> nonneg_times (module (wrapped ind m))"
proof (induction m arbitrary: ind t ind')
  case (Module c cs as f)
  have "proper (TimedLayer (module (wrapped (ind @ tab) ch)) (cls_name ch) 0 ind)
        \<and> nonneg_times (module (wrapped (ind @ tab) ch))" if "(n, ch) \<in> set cs" for n ch
    using that Module.IH[of "(n, ch)" ch "ind @ tab" 0 ind] Module.prems
    by (auto simp: list_all_iff)
  then show ?case by (auto simp: list_all_iff)
next
  case (TimedLayer m n t i)
  then show ?case by simp
qed

lemma sub_timings_filter:
  "sub_timings cs = Inr rs \<Longrightarrow>
     map Inr rs = map (\<lambda>(k, q). get_timings q) (filter (\<lambda>(k, q). isinstance_TimedLayer q) cs)"
  by (induction cs arbitrary: rs) (auto split: if_splits sum.splits)

lemma mono_example_clock: "mono (clock example_env)"
  by (simp add: example_env_def mono_def)

lemma forward_example_root:
  "forward example_env
     (TimedLayer (Module ''Root'' [(''a'', TimedLayer example_leaf ''Leaf'' 0 tab)] [] example_body)
        ''Root'' 0 tab) 5 example_world
   = (Inr 12,
      TimedLayer (Module ''Root'' [(''a'', TimedLayer example_leaf ''Leaf'' 1000 tab)] [] example_body)
        ''Root'' 3000 tab,
      \<lparr>ticks = 4, grad_enabled = True,
        log = [LayerLine tab ''Leaf'' 1000, LayerLine tab ''Root'' 3000], stdout = []\<rparr>)"
  by (simp add: example_leaf_def example_body_def example_env_def example_world_def
      time_time_def logger_info_def)

section \<open>Attribute lookup\<close>

lemma getattr_error:
  "getattr nn (m :: 'v module) name = Inl e \<Longrightarrow> e = AttributeError name"
  "TimedLayer_getattr nn' (m' :: 'v module) n t i name' = Inl e' \<Longrightarrow> e' = AttributeError name'"
proof (induction nn m name and nn' m' n t i name' arbitrary: e and e'
    rule: getattr_TimedLayer_getattr.induct)
  case (1 nn c cs as f name)
  then show ?case by (auto simp: Module_getattr_def simp del: own_attribute.simps split: option.splits)
next
  case (2 nn m n t i name)
  then show ?case by (auto simp del: own_attribute.simps split: option.splits)
next
  case (3 nn m n t i attribute_name)
  then show ?case by (auto simp: Module_getattr_def split: if_splits)
qed

section \<open>The claims\<close>




text \<open>
  C2 (no silent double-wrap), as amended: in \<^verbatim>\<open>src/pytorchures/timing.py\<close>, constructing a
  \<^verbatim>\<open>TimedLayer\<close> around an object that is already a \<^verbatim>\<open>TimedLayer\<close>, or around an object that
  is not a module, fails with \<^verbatim>\<open>AssertionError\<close>, and so does \<^verbatim>\<open>wrap_model_layers\<close> on
  either.
\<close>

theorem no_double_wrap:
  "TimedLayer_init (ModuleObj (TimedLayer m n t i)) ind = Inl AssertionError
   \<and> TimedLayer_init (OtherObj x) ind = Inl AssertionError
   \<and> fst (wrap_model_layers (ModuleObj (TimedLayer m n t i)) ind) = Inl AssertionError
   \<and> fst (wrap_model_layers (OtherObj x) ind) = Inl AssertionError"
  by (simp add: TimedLayer_init_def)

text \<open>
  C2 as stated fails on \<^verbatim>\<open>src/object_detection/timing.py\<close>: its constructor checks nothing,
  and a \<^verbatim>\<open>TimedLayer\<close> around a \<^verbatim>\<open>TimedLayer\<close> is built.
\<close>

theorem od_double_wrap_accepted:
  "od_TimedLayer_init (OdTimedLayer (OdModule ''Leaf'' [] :: int od_module) 0 tab) tab
     = OdTimedLayer (OdTimedLayer (OdModule ''Leaf'' []) 0 tab) 0 tab"
  by (simp add: od_TimedLayer_init_def)

text \<open>
  C3 (full coverage), as amended: in \<^verbatim>\<open>src/pytorchures/timing.py\<close>, when
  \<^verbatim>\<open>wrap_model_layers(model)\<close> returns, the object returned is a \<^verbatim>\<open>TimedLayer\<close> and so is,
  recursively, what every child slot of every wrapped module holds.
\<close>

theorem full_coverage:
  assumes "well_formed model"
      and "wrap_model_layers (ModuleObj model) ind = (Inr p, out)"
  shows "fully_wrapped p"
proof -
  from wrap_char(1)[OF assms(1) refl assms(2)]
  have "proxy_free model" and "p = wrapped ind model" by simp_all
  then show ?thesis by (simp add: fully_wrapped_wrapped)
qed

theorem full_coverage_witness:
  "well_formed example_root
   \<and> wrap_model_layers (ModuleObj example_root) tab
       = (Inr (TimedLayer (Module ''Root'' [(''a'', TimedLayer example_leaf ''Leaf'' 0 tab)] [] example_body)
                ''Root'' 0 tab),
          [TextLine (tab @ ''Root''), TextLine (tab @ tab @ ''Leaf'')])
   \<and> fully_wrapped
       (TimedLayer (Module ''Root'' [(''a'', TimedLayer example_leaf ''Leaf'' 0 tab)] [] example_body)
          ''Root'' 0 tab)"
  using full_coverage[OF example_root_ok(1) wrap_example_root] example_root_ok(1) wrap_example_root
  by simp

text \<open>
  C3 as stated fails on \<^verbatim>\<open>src/object_detection/timing.py\<close>: the slots are replaced, the
  model itself stays a plain module.
\<close>

theorem od_root_not_wrapped:
  "snd (od_wrap_model_layers od_example_root tab)
     = OdModule ''Root'' [(''a'', OdTimedLayer (OdModule ''Leaf'' []) 0 tab)]
   \<and> \<not> isinstance_OdTimedLayer (snd (od_wrap_model_layers od_example_root tab))"
  by (simp add: od_example_root_def od_TimedLayer_init_def)

text \<open>
  C4 (wrap contract), as amended: in \<^verbatim>\<open>src/pytorchures/timing.py\<close>, for a tree that holds no
  \<^verbatim>\<open>TimedLayer\<close>, \<^verbatim>\<open>wrap_model_layers(model)\<close> returns a new \<^verbatim>\<open>TimedLayer\<close> around the
  model, in which every child slot holds, under its name, a \<^verbatim>\<open>TimedLayer\<close> around the child
  as the child's own complete wrapping leaves it.
\<close>

theorem wrap_contract:
  assumes "well_formed (Module c cs as f)" and "proxy_free (Module c cs as f)"
  shows "\<exists>slots out.
     wrap_model_layers (ModuleObj (Module c cs as f)) ind
       = (Inr (TimedLayer (Module c slots as f) c 0 ind), out)
     \<and> list_all2 (\<lambda>(n, child) (n', q). n' = n \<and>
          (\<exists>p out'. wrap_model_layers (ModuleObj child) (ind @ tab) = (Inr p, out')
             \<and> fully_wrapped p \<and> q = TimedLayer (module p) (cls_name child) 0 ind)) cs slots"
proof -
  from wrap_succeeds(1)[OF assms refl] obtain p out where
    w: "wrap_model_layers (ModuleObj (Module c cs as f)) ind = (Inr p, out)" by blast
  from wrap_char(1)[OF assms(1) refl w] have p: "p = wrapped ind (Module c cs as f)" by simp
  let ?slots = "map (\<lambda>(n, ch).
      (n, TimedLayer (module (wrapped (ind @ tab) ch)) (cls_name ch) 0 ind)) cs"
  have "list_all2 (\<lambda>(n, child) (n', q). n' = n \<and>
          (\<exists>p out'. wrap_model_layers (ModuleObj child) (ind @ tab) = (Inr p, out')
             \<and> fully_wrapped p \<and> q = TimedLayer (module p) (cls_name child) 0 ind)) cs ?slots"
  proof (rule list_all2_all_nthI)
    show "length cs = length ?slots" by simp
  next
    fix k assume k: "k < length cs"
    obtain n ch where nch: "cs ! k = (n, ch)" by (cases "cs ! k") auto
    with k have mem: "(n, ch) \<in> set cs" by (metis nth_mem)
    with assms have c: "well_formed ch" "proxy_free ch" by (auto simp: list_all_iff)
    from wrap_succeeds(1)[OF c refl] obtain q out' where
      wq: "wrap_model_layers (ModuleObj ch) (ind @ tab) = (Inr q, out')" by blast
    from wrap_char(1)[OF c(1) refl wq] have q: "q = wrapped (ind @ tab) ch" by simp
    from c(2) q have "fully_wrapped q" by (simp add: fully_wrapped_wrapped)
    with wq q k nch
    show "(case cs ! k of (n, child) \<Rightarrow> \<lambda>(n', q). n' = n \<and>
          (\<exists>p out'. wrap_model_layers (ModuleObj child) (ind @ tab) = (Inr p, out')
             \<and> fully_wrapped p \<and> q = TimedLayer (module p) (cls_name child) 0 ind)) (?slots ! k)"
      by auto
  qed
  with w p show ?thesis by auto
qed

theorem wrap_contract_witness:
  "well_formed (Module ''Root'' [(''a'', example_leaf)] [] example_body)
   \<and> proxy_free (Module ''Root'' [(''a'', example_leaf)] [] example_body)
   \<and> (\<exists>slots out.
       wrap_model_layers (ModuleObj (Module ''Root'' [(''a'', example_leaf)] [] example_body)) tab
         = (Inr (TimedLayer (Module ''Root'' slots [] example_body) ''Root'' 0 tab), out)
       \<and> list_all2 (\<lambda>(n, child) (n', q). n' = n \<and>
            (\<exists>p out'. wrap_model_layers (ModuleObj child) (tab @ tab) = (Inr p, out')
               \<and> fully_wrapped p \<and> q = TimedLayer (module p) (cls_name child) 0 tab))
            [(''a'', example_leaf)] slots)"
proof -
  have ok: "well_formed (Module ''Root'' [(''a'', example_leaf)] [] example_body)"
    "proxy_free (Module ''Root'' [(''a'', example_leaf)] [] example_body)"
    by (simp_all add: example_leaf_def)
  from wrap_contract[OF ok, of tab] ok show ?thesis by simp
qed

text \<open>
  C4 as stated fails on \<^verbatim>\<open>src/object_detection/timing.py\<close>: the function returns
  \<^verbatim>\<open>None\<close>, not a proxy of the model.
\<close>

theorem od_wrap_returns_none:
  "fst (od_wrap_model_layers od_example_root tab) = None"
  by (simp add: od_example_root_def)



text \<open>
  C6 (timing report), as amended: for a well-formed tree \<open>C\<close>, after one call of the proxy
  that \<^verbatim>\<open>wrap_model_layers(C)\<close> returned, \<^verbatim>\<open>get_timings()\<close> on it returns a report of the
  shape of \<open>C\<close>, and no duration in it is negative provided that the readings of
  \<^verbatim>\<open>time.time()\<close> do not decrease. On any \<^verbatim>\<open>TimedLayer\<close>, the report has one entry for each
  child of the wrapped module that is a \<^verbatim>\<open>TimedLayer\<close>, and none for the others.
\<close>

theorem timing_report:
  assumes "well_formed C"
      and "wrap_model_layers (ModuleObj C) ind = (Inr P, out)"
      and "forward env P a w = (r, P', w')"
      and "mono (clock env)"
  shows "(\<exists>rep. get_timings P' = Inr rep \<and> timings_shape rep = module_shape C \<and> durations_nonneg rep)
     \<and> (\<forall>m n t i rep. get_timings (TimedLayer m n t i) = Inr rep \<longrightarrow>
          map Inr (t_sub_modules rep)
            = map (\<lambda>(k, q). get_timings q)
                (filter (\<lambda>(k, q). isinstance_TimedLayer q) (named_children m)))"
proof -
  from wrap_char(1)[OF assms(1) refl assms(2)] have pf: "proxy_free C" and P: "P = wrapped ind C"
    by simp_all
  obtain c cs as f where C: "C = Module c cs as f" using pf by (cases C) auto
  have P': "P = TimedLayer (module (wrapped ind C)) (cls_name C) 0 ind" unfolding P C by simp
  from proper_installed[OF pf, of ind 0 ind] have ppr: "proper P" and nn: "nonneg_times P"
    unfolding P' by simp_all
  from forward_times(1)[OF assms(4) refl nn, of a w] assms(3)
  have nn': "nonneg_times P'" and fg: "forget P' = forget P" by simp_all
  from fg have "proper P'" using ppr proper_forget[of P'] proper_forget[of P] by simp
  from get_timings_proper[OF this] nn' obtain rep where
    rep: "get_timings P' = Inr rep" "timings_shape rep = module_shape (strip P')" "durations_nonneg rep"
    by blast
  have "strip P' = strip P" using fg strip_forget[of P'] strip_forget[of P] by simp
  also have "\<dots> = C" unfolding P' using strip_module_wrapped[OF pf] by simp
  finally have "strip P' = C" .
  with rep have 1: "\<exists>rep. get_timings P' = Inr rep \<and> timings_shape rep = module_shape C \<and> durations_nonneg rep"
    by auto
  have 2: "\<forall>m n t i rep. get_timings (TimedLayer m n t i) = Inr rep \<longrightarrow>
          map Inr (t_sub_modules rep)
            = map (\<lambda>(k, q). get_timings q)
                (filter (\<lambda>(k, q). isinstance_TimedLayer q) (named_children m))"
    by (auto split: sum.splits dest: sub_timings_filter)
  from 1 2 show ?thesis by blast
qed

theorem timing_report_witness:
  "well_formed example_root
   \<and> wrap_model_layers (ModuleObj example_root) tab
       = (Inr (TimedLayer (Module ''Root'' [(''a'', TimedLayer example_leaf ''Leaf'' 0 tab)] [] example_body)
                ''Root'' 0 tab),
          [TextLine (tab @ ''Root''), TextLine (tab @ tab @ ''Leaf'')])
   \<and> forward example_env
       (TimedLayer (Module ''Root'' [(''a'', TimedLayer example_leaf ''Leaf'' 0 tab)] [] example_body)
          ''Root'' 0 tab) 5 example_world
     = (Inr 12,
        TimedLayer (Module ''Root'' [(''a'', TimedLayer example_leaf ''Leaf'' 1000 tab)] [] example_body)
          ''Root'' 3000 tab,
        \<lparr>ticks = 4, grad_enabled = True,
          log = [LayerLine tab ''Leaf'' 1000, LayerLine tab ''Root'' 3000], stdout = []\<rparr>)
   \<and> mono (clock example_env)
   \<and> get_timings
       (TimedLayer (Module ''Root'' [(''a'', TimedLayer example_leaf ''Leaf'' 1000 tab)] [] example_body)
          ''Root'' 3000 tab)
     = Inr (Timings ''Root'' 3000 [Timings ''Leaf'' 1000 []])
   \<and> timings_shape (Timings ''Root'' 3000 [Timings ''Leaf'' 1000 []]) = module_shape example_root
   \<and> durations_nonneg (Timings ''Root'' 3000 [Timings ''Leaf'' 1000 []])
   \<and> get_timings example_mixed = Inr (Timings ''Root'' 7 [Timings ''Leaf'' 3 []])
   \<and> map Inr (t_sub_modules (Timings ''Root'' 7 [Timings ''Leaf'' 3 []]))
       = map (\<lambda>(k, q). get_timings q) (filter (\<lambda>(k, q). isinstance_TimedLayer q)
           [(''a'', example_leaf), (''b'', TimedLayer example_leaf ''Leaf'' 3 tab)])"
proof -
  have g: "get_timings
       (TimedLayer (Module ''Root'' [(''a'', TimedLayer example_leaf ''Leaf'' 1000 tab)] [] example_body)
          ''Root'' 3000 tab)
     = Inr (Timings ''Root'' 3000 [Timings ''Leaf'' 1000 []])"
    by (simp add: example_leaf_def)
  have m: "get_timings example_mixed = Inr (Timings ''Root'' 7 [Timings ''Leaf'' 3 []])"
    by (simp add: example_mixed_def example_leaf_def)
  from timing_report[OF example_root_ok(1) wrap_example_root forward_example_root mono_example_clock]
  have "(\<exists>rep. get_timings
       (TimedLayer (Module ''Root'' [(''a'', TimedLayer example_leaf ''Leaf'' 1000 tab)] [] example_body)
          ''Root'' 3000 tab) = Inr rep
        \<and> timings_shape rep = module_shape example_root \<and> durations_nonneg rep)"
    and len: "\<And>m n t i rep. get_timings (TimedLayer m n t i) = Inr rep \<Longrightarrow>
          map Inr (t_sub_modules rep)
            = map (\<lambda>(k, q). get_timings q)
                (filter (\<lambda>(k, q). isinstance_TimedLayer q) (named_children m))"
    by blast+
  with g have r: "timings_shape (Timings ''Root'' 3000 [Timings ''Leaf'' 1000 []]) = module_shape example_root"
    "durations_nonneg (Timings ''Root'' 3000 [Timings ''Leaf'' 1000 []])"
    by auto
  from len[OF m[unfolded example_mixed_def]]
  have l: "map Inr (t_sub_modules (Timings ''Root'' 7 [Timings ''Leaf'' 3 []]))
       = map (\<lambda>(k, q). get_timings q) (filter (\<lambda>(k, q). isinstance_TimedLayer q)
           [(''a'', example_leaf), (''b'', TimedLayer example_leaf ''Leaf'' 3 tab)])"
    by simp
  from example_root_ok(1) wrap_example_root forward_example_root mono_example_clock g r m l
  show ?thesis by blast
qed

text \<open>
  C6 as stated fails when the wall clock is set back between the two readings (here by one
  second): the stored duration is negative.
\<close>

theorem backward_clock_negative_duration:
  "wrap_model_layers (ModuleObj example_leaf) tab
     = (Inr (TimedLayer example_leaf ''Leaf'' 0 tab), [TextLine (tab @ ''Leaf'')])
   \<and> forward backward_env (TimedLayer example_leaf ''Leaf'' 0 tab) 5 example_world
     = (Inr 6, TimedLayer example_leaf ''Leaf'' (- 1000) tab,
        \<lparr>ticks = 2, grad_enabled = True, log = [LayerLine tab ''Leaf'' (- 1000)], stdout = []\<rparr>)
   \<and> get_timings (TimedLayer example_leaf ''Leaf'' (- 1000) tab) = Inr (Timings ''Leaf'' (- 1000) [])
   \<and> \<not> durations_nonneg (Timings ''Leaf'' (- 1000) [])"
  by (simp add: wrap_example_leaf)
     (simp add: example_leaf_def backward_env_def example_world_def time_time_def logger_info_def)

text \<open>
  C7 (function call profiler), as amended: for a callable \<open>f\<close> that has a name, when \<open>f\<close>
  returns \<open>v\<close> on \<open>x\<close>, the wrapper returns \<open>v\<close> and adds one line, after whatever \<open>f\<close>
  itself wrote: to the log in \<^verbatim>\<open>src/pytorchures/timing.py\<close>, to the standard output in
  \<^verbatim>\<open>src/object_detection/timing.py\<close>. The wrapper has the name and the docstring of \<open>f\<close>.
\<close>

theorem profiler_transparent:
  assumes "fn_call f x (snd (time_time env w)) = (Inr v, w2)"
      and "fn_name f = Some name"
  shows "fst (fn_call (profile_function env f) x w) = Inr v
   \<and> log (snd (fn_call (profile_function env f) x w))
       = log w2 @ [FunctionLine name ((clock env (ticks w2) - clock env (ticks w)) * 1000)]
   \<and> stdout (snd (fn_call (profile_function env f) x w)) = stdout w2
   \<and> fn_name (profile_function env f) = fn_name f
   \<and> fn_doc (profile_function env f) = fn_doc f
   \<and> fst (fn_call (od_profile_function env f) x w) = Inr v
   \<and> stdout (snd (fn_call (od_profile_function env f) x w))
       = stdout w2 @ [FunctionLine name ((clock env (ticks w2) - clock env (ticks w)) * 1000)]
   \<and> log (snd (fn_call (od_profile_function env f) x w)) = log w2
   \<and> fn_name (od_profile_function env f) = fn_name f
   \<and> fn_doc (od_profile_function env f) = fn_doc f"
  using assms
  by (simp add: profile_function_def od_profile_function_def wraps_def time_time_def
      logger_info_def print_def)

theorem profiler_transparent_witness:
  "fn_call double_fn 21 (snd (time_time example_env example_world))
     = (Inr 42, \<lparr>ticks = 1, grad_enabled = True, log = [], stdout = []\<rparr>)
   \<and> fn_name double_fn = Some ''f''
   \<and> fn_call (profile_function example_env double_fn) 21 example_world
     = (Inr 42, \<lparr>ticks = 2, grad_enabled = True, log = [FunctionLine ''f'' 1000], stdout = []\<rparr>)
   \<and> fn_name (profile_function example_env double_fn) = Some ''f''
   \<and> fn_doc (profile_function example_env double_fn) = Some ''doubles''
   \<and> fn_call (od_profile_function example_env double_fn) 21 example_world
     = (Inr 42, \<lparr>ticks = 2, grad_enabled = True, log = [], stdout = [FunctionLine ''f'' 1000]\<rparr>)"
proof -
  have a: "fn_call double_fn 21 (snd (time_time example_env example_world))
     = (Inr 42, \<lparr>ticks = 1, grad_enabled = True, log = [], stdout = []\<rparr>)"
    by (simp add: double_fn_def example_world_def time_time_def)
  have n: "fn_name double_fn = Some ''f''"
    by (simp add: double_fn_def)
  have b: "fn_call (profile_function example_env double_fn) 21 example_world
     = (Inr 42, \<lparr>ticks = 2, grad_enabled = True, log = [FunctionLine ''f'' 1000], stdout = []\<rparr>)"
    by (simp add: profile_function_def wraps_def double_fn_def example_world_def example_env_def
        time_time_def logger_info_def)
  have c: "fn_call (od_profile_function example_env double_fn) 21 example_world
     = (Inr 42, \<lparr>ticks = 2, grad_enabled = True, log = [], stdout = [FunctionLine ''f'' 1000]\<rparr>)"
    by (simp add: od_profile_function_def wraps_def double_fn_def example_world_def example_env_def
        time_time_def print_def)
  from profiler_transparent[OF a n] a n b c show ?thesis
    by (simp add: double_fn_def)
qed

text \<open>
  C7 as stated fails for a callable without a name, such as a \<^verbatim>\<open>functools.partial\<close>: the
  function returns, the wrapper raises \<^verbatim>\<open>AttributeError\<close> on \<^verbatim>\<open>f.__name__\<close> and logs
  nothing. And a call on which the function raises logs no line.
\<close>

theorem profiler_needs_name:
  "fn_call double_partial 21 (snd (time_time example_env example_world))
     = (Inr 42, \<lparr>ticks = 1, grad_enabled = True, log = [], stdout = []\<rparr>)
   \<and> fn_call (profile_function example_env double_partial) 21 example_world
     = (Inl (AttributeError ''__name__''),
        \<lparr>ticks = 2, grad_enabled = True, log = [], stdout = []\<rparr>)
   \<and> fn_call (profile_function example_env failing_fn) 0 example_world
     = (Inl (RuntimeError ''boom''), \<lparr>ticks = 1, grad_enabled = True, log = [], stdout = []\<rparr>)"
  by (simp add: profile_function_def wraps_def double_partial_def failing_fn_def example_world_def
      example_env_def time_time_def logger_info_def)

text \<open>
  C8 (attribute forwarding): a name that the \<^verbatim>\<open>TimedLayer\<close> object or its class defines
  resolves there, whatever the wrapped module has under that name; \<^verbatim>\<open>_module\<close> resolves to
  the wrapped module; every other name resolves as on the wrapped module; and a name that
  the wrapped module does not have either raises \<^verbatim>\<open>AttributeError\<close>.
\<close>

theorem attribute_forwarding:
  "(own_attribute nn (TimedLayer m n t i) name = Some a
      \<longrightarrow> getattr nn (TimedLayer m n t i) name = Inr a)
   \<and> (own_attribute nn (TimedLayer m n t i) name = None \<and> name = ''_module''
      \<longrightarrow> getattr nn (TimedLayer m n t i) name = Inr (Submodule m))
   \<and> (own_attribute nn (TimedLayer m n t i) name = None \<and> name \<noteq> ''_module''
      \<longrightarrow> getattr nn (TimedLayer m n t i) name = getattr nn m name)
   \<and> (own_attribute nn (TimedLayer m n t i) name = None \<and> name \<noteq> ''_module''
        \<and> (\<forall>v. getattr nn m name \<noteq> Inr v)
      \<longrightarrow> getattr nn (TimedLayer m n t i) name = Inl (AttributeError name))"
proof -
  have "getattr nn m name = Inl (AttributeError name)" if "\<forall>v. getattr nn m name \<noteq> Inr v"
    using that getattr_error(1)[of nn m name] by (cases "getattr nn m name") auto
  then show ?thesis
    by (auto simp: Module_getattr_def simp del: own_attribute.simps)
qed

theorem attribute_forwarding_witness:
  "own_attribute Map.empty (TimedLayer example_attrs ''Backbone'' 0 tab) ''_indent'' = Some (Str tab)
   \<and> getattr Map.empty example_attrs ''_indent'' = Inr (Value 7)
   \<and> getattr Map.empty (TimedLayer example_attrs ''Backbone'' 0 tab) ''_indent'' = Inr (Str tab)
   \<and> getattr Map.empty (TimedLayer example_attrs ''Backbone'' 0 tab) ''_module'' = Inr (Submodule example_attrs)
   \<and> own_attribute Map.empty (TimedLayer example_attrs ''Backbone'' 0 tab) ''out_channels'' = None
   \<and> getattr Map.empty (TimedLayer example_attrs ''Backbone'' 0 tab) ''out_channels'' = Inr (Value 256)
   \<and> own_attribute Map.empty (TimedLayer example_attrs ''Backbone'' 0 tab) ''missing'' = None
   \<and> getattr Map.empty example_attrs ''missing'' = Inl (AttributeError ''missing'')
   \<and> getattr Map.empty (TimedLayer example_attrs ''Backbone'' 0 tab) ''missing''
       = Inl (AttributeError ''missing'')"
proof -
  have o1: "own_attribute Map.empty (TimedLayer example_attrs ''Backbone'' 0 tab) ''_indent'' = Some (Str tab)"
    by simp
  have o2: "own_attribute Map.empty (TimedLayer example_attrs ''Backbone'' 0 tab) ''_module'' = None"
    by simp
  have o3: "own_attribute Map.empty (TimedLayer example_attrs ''Backbone'' 0 tab) ''out_channels'' = None"
    by simp
  have o4: "own_attribute Map.empty (TimedLayer example_attrs ''Backbone'' 0 tab) ''missing'' = None"
    by simp
  have g1: "getattr Map.empty example_attrs ''_indent'' = Inr (Value 7)"
    by (simp add: example_attrs_def)
  have g3: "getattr Map.empty example_attrs ''out_channels'' = Inr (Value 256)"
    by (simp add: example_attrs_def)
  have g4: "getattr Map.empty example_attrs ''missing'' = Inl (AttributeError ''missing'')"
    by (simp add: example_attrs_def Module_getattr_def)
  from g4 have n4: "\<forall>v. getattr Map.empty example_attrs ''missing'' \<noteq> Inr v" by simp
  from attribute_forwarding[of Map.empty example_attrs "''Backbone''" 0 tab "''_indent''" "Str tab"] o1
  have a: "getattr Map.empty (TimedLayer example_attrs ''Backbone'' 0 tab) ''_indent'' = Inr (Str tab)"
    by blast
  from attribute_forwarding[of Map.empty example_attrs "''Backbone''" 0 tab "''_module''"] o2
  have b: "getattr Map.empty (TimedLayer example_attrs ''Backbone'' 0 tab) ''_module'' = Inr (Submodule example_attrs)"
    by blast
  from attribute_forwarding[of Map.empty example_attrs "''Backbone''" 0 tab "''out_channels''"] o3 g3
  have c: "getattr Map.empty (TimedLayer example_attrs ''Backbone'' 0 tab) ''out_channels'' = Inr (Value 256)"
    by auto
  from attribute_forwarding[of Map.empty example_attrs "''Backbone''" 0 tab "''missing''"] o4 n4
  have d: "getattr Map.empty (TimedLayer example_attrs ''Backbone'' 0 tab) ''missing''
       = Inl (AttributeError ''missing'')"
    by auto
  from o1 g1 a b o3 c o4 g4 d show ?thesis by blast
qed

text \<open>
  C9 (indentation depth): \<^verbatim>\<open>wrap_model_layers\<close> of \<^verbatim>\<open>src/pytorchures/timing.py\<close> on a
  tree of three levels with the indent of one tab. The proxy returned for the top layer and
  the proxy installed for its child carry the same indent; only the proxy of the grandchild
  is one tab deeper. In \<^verbatim>\<open>src/object_detection/timing.py\<close>, which builds no proxy for the
  top layer, the proxy of the child carries one tab and that of the grandchild two.
\<close>

theorem installed_child_indent_of_parent:
  "fst (wrap_model_layers (ModuleObj example_deep) tab)
     = Inr (TimedLayer
         (Module ''Top''
            [(''a'', TimedLayer
               (Module ''Root'' [(''a'', TimedLayer example_leaf ''Leaf'' 0 (tab @ tab))] [] example_body)
               ''Root'' 0 tab)]
            [] example_body)
         ''Top'' 0 tab)
   \<and> snd (od_wrap_model_layers od_example_deep tab)
     = OdModule ''Top''
         [(''a'', OdTimedLayer
            (OdModule ''Root'' [(''a'', OdTimedLayer (OdModule ''Leaf'' []) 0 (tab @ tab))])
            0 tab)]"
  by (simp add: example_deep_def example_root_def example_leaf_def TimedLayer_init_def
      od_example_deep_def od_example_root_def od_TimedLayer_init_def)


end
